theory Spec2Isabelle
  imports Main "HOL-Library.Word" "HOL-Library.Sublist"
begin

unbundle bit_operations_syntax

section \<open>The WinRT BLE wrapper (winrt_ble_wrapper.cpp) as a state machine\<close>

text \<open>
  The wrapper keeps six globals, allocates C strings with \<open>new char[]\<close>, and calls into
  the platform (apartment initialisation, the advertisement watcher, a detached timer
  thread, the client's callback). The globals are fields of the record \<open>state\<close>; the
  free store and what the platform has been asked to do are further fields of the same
  record, so that every function of the wrapper is a function from state to state.
\<close>

subsection \<open>C values\<close>

type_synonym ptr = nat
type_synonym int32 = "32 word"
type_synonym wchar = "16 word"

definition nullptr :: ptr where
  "nullptr = 0"

definition NUL :: char where
  "NUL = CHR 0x00"

text \<open>
  A block of the free store: the size given to \<open>new char[n]\<close> and the characters written
  to it before the terminating NUL. The store is an association list from addresses to
  blocks. \<open>new\<close> hands out an address above every live block, hence never
  \<open>nullptr\<close> and never the address of a live block. \<open>delete[]\<close> of a null pointer
  does nothing and \<open>delete[]\<close> of the address of a live block drops the block; of any
  other address (a block deleted before, an address never handed out) it is undefined
  behaviour, the result \<open>None\<close>, and so is every call of the wrapper that runs into it.
\<close>

type_synonym block = "nat \<times> string"
type_synonym heap = "(ptr \<times> block) list"

fun heap_top :: "heap \<Rightarrow> nat" where
  "heap_top [] = 0"
| "heap_top ((p, b) # h) = max p (heap_top h)"

definition new_array :: "nat \<Rightarrow> string \<Rightarrow> heap \<Rightarrow> ptr \<times> heap" where
  "new_array n str h = (let p = Suc (heap_top h) in (p, (p, (n, str)) # h))"

definition block_at :: "heap \<Rightarrow> ptr \<Rightarrow> block option" where
  "block_at h p = map_of h p"

definition drop_block :: "ptr \<Rightarrow> heap \<Rightarrow> heap" where
  "drop_block p h = filter (\<lambda>(q, b). q \<noteq> p) h"

definition delete_array :: "ptr \<Rightarrow> heap \<Rightarrow> heap option" where
  "delete_array p h =
     (if p = nullptr then Some h
      else if block_at h p = None then None
      else Some (drop_block p h))"

subsection \<open>format_bluetooth_address\<close>

text \<open>
  \<open>sprintf_s\<close> with \<open>%02X\<close>: the value in upper-case hexadecimal, as many digits as it
  needs, padded with zeros on the left to two characters. The arguments are 64-bit
  expressions and \<open>%X\<close> reads an \<open>unsigned int\<close>: with the 64-bit calling convention of
  the platform, the low 32 bits of the argument's slot (\<open>ucast\<close>). The buffer has 18
  characters; the text and its terminating NUL are shown below to fit.
\<close>

definition hex_digit :: "nat \<Rightarrow> char" where
  "hex_digit n = ''0123456789ABCDEF'' ! (n mod 16)"

function to_hex :: "nat \<Rightarrow> string" where
  "to_hex n = (if n < 16 then [hex_digit n] else to_hex (n div 16) @ [hex_digit n])"
  by pat_completeness auto
termination
  by (relation "measure id") auto

declare to_hex.simps [simp del]

definition sprintf_02X :: "int32 \<Rightarrow> string" where
  "sprintf_02X v = (let ds = to_hex (unat v) in replicate (2 - length ds) CHR ''0'' @ ds)"

definition sprintf_address :: "64 word \<Rightarrow> string" where
  "sprintf_address addr =
     sprintf_02X (ucast (drop_bit 40 addr AND 0xFF)) @ '':'' @
     sprintf_02X (ucast (drop_bit 32 addr AND 0xFF)) @ '':'' @
     sprintf_02X (ucast (drop_bit 24 addr AND 0xFF)) @ '':'' @
     sprintf_02X (ucast (drop_bit 16 addr AND 0xFF)) @ '':'' @
     sprintf_02X (ucast (drop_bit 8 addr AND 0xFF)) @ '':'' @
     sprintf_02X (ucast (addr AND 0xFF))"

definition format_bluetooth_address :: "64 word \<Rightarrow> heap \<Rightarrow> ptr \<times> heap" where
  "format_bluetooth_address addr h = new_array 18 (sprintf_address addr) h"

text \<open>
  The claim's form of the string, for comparison: byte \<open>i\<close> of the address (byte 0 the
  least significant) as two upper-case hexadecimal digits, bytes 5 down to 0, with
  colons between them.
\<close>

definition address_byte :: "64 word \<Rightarrow> nat \<Rightarrow> nat" where
  "address_byte addr i = (unat addr div 256 ^ i) mod 256"

definition hex_pair :: "nat \<Rightarrow> string" where
  "hex_pair b = [hex_digit (b div 16), hex_digit (b mod 16)]"

definition colon_hex :: "64 word \<Rightarrow> string" where
  "colon_hex addr =
     hex_pair (address_byte addr 5) @ '':'' @ hex_pair (address_byte addr 4) @ '':'' @
     hex_pair (address_byte addr 3) @ '':'' @ hex_pair (address_byte addr 2) @ '':'' @
     hex_pair (address_byte addr 1) @ '':'' @ hex_pair (address_byte addr 0)"

subsection \<open>Strings: conversion and the name prefix\<close>

text \<open>
  \<open>WideCharToMultiByte\<close> is the platform's. Its conversion with \<open>CP_UTF8\<close> is the
  parameter \<open>utf8\<close> of everything that converts a name; with a length of 0 the call
  fails, returns 0 and writes nothing. \<open>wstring_to_cstring\<close> calls it once for the
  size and once to fill the buffer of that size plus one.
\<close>

definition WideCharToMultiByte :: "(wchar list \<Rightarrow> string) \<Rightarrow> wchar list \<Rightarrow> string" where
  "WideCharToMultiByte utf8 wstr = (if wstr = [] then [] else utf8 wstr)"

definition wstring_to_cstring :: "(wchar list \<Rightarrow> string) \<Rightarrow> wchar list \<Rightarrow> heap \<Rightarrow> ptr \<times> heap" where
  "wstring_to_cstring utf8 wstr h =
     (let size_needed = length (WideCharToMultiByte utf8 wstr)
      in new_array (size_needed + 1) (WideCharToMultiByte utf8 wstr) h)"

text \<open>
  An \<open>hstring\<close> is a counted string of UTF-16 code units. \<open>std::wstring wstr(hstr.c_str())\<close>
  copies it up to its first zero code unit.
\<close>

definition c_str :: "wchar list \<Rightarrow> wchar list" where
  "c_str hstr = takeWhile (\<lambda>c. c \<noteq> 0) hstr"

definition hstring_to_cstring :: "(wchar list \<Rightarrow> string) \<Rightarrow> wchar list \<Rightarrow> heap \<Rightarrow> ptr \<times> heap" where
  "hstring_to_cstring utf8 hstr h = wstring_to_cstring utf8 (c_str hstr) h"

text \<open>
  A conversion to run the model on: UTF-16 to UTF-8, a surrogate pair as one four-byte
  sequence and an unpaired surrogate as U+FFFD.
\<close>

definition utf8_unit :: "nat \<Rightarrow> string" where
  "utf8_unit n =
     (if n < 0x80 then [char_of n]
      else if n < 0x800 then [char_of (0xC0 + n div 64), char_of (0x80 + n mod 64)]
      else if 0xD800 \<le> n \<and> n < 0xE000 then [CHR 0xEF, CHR 0xBF, CHR 0xBD]
      else [char_of (0xE0 + n div 4096), char_of (0x80 + n div 64 mod 64), char_of (0x80 + n mod 64)])"

definition utf8_pair :: "nat \<Rightarrow> nat \<Rightarrow> string" where
  "utf8_pair hi lo =
     (let cp = 0x10000 + (hi - 0xD800) * 1024 + (lo - 0xDC00)
      in [char_of (0xF0 + cp div 262144), char_of (0x80 + cp div 4096 mod 64),
          char_of (0x80 + cp div 64 mod 64), char_of (0x80 + cp mod 64)])"

fun utf8_encode :: "wchar list \<Rightarrow> string" where
  "utf8_encode [] = []"
| "utf8_encode [u] = utf8_unit (unat u)"
| "utf8_encode (u # v # ws) =
     (if 0xD800 \<le> unat u \<and> unat u < 0xDC00 \<and> 0xDC00 \<le> unat v \<and> unat v < 0xE000
      then utf8_pair (unat u) (unat v) @ utf8_encode ws
      else utf8_unit (unat u) @ utf8_encode (v # ws))"

text \<open>
  C strings are read up to the first NUL; the end of the characters of a block is its
  terminating NUL.
\<close>

definition NIOX_PREFIX :: string where
  "NIOX_PREFIX = ''NIOX PRO''"

fun strlen :: "string \<Rightarrow> nat" where
  "strlen [] = 0"
| "strlen (c # cs) = (if c = NUL then 0 else Suc (strlen cs))"

definition char_at :: "string \<Rightarrow> char" where
  "char_at cs = (case cs of [] \<Rightarrow> NUL | c # _ \<Rightarrow> c)"

fun strncmp :: "string \<Rightarrow> string \<Rightarrow> nat \<Rightarrow> int" where
  "strncmp a b 0 = 0"
| "strncmp a b (Suc n) =
     (if char_at a \<noteq> char_at b
      then (if (of_char (char_at a) :: nat) < of_char (char_at b) then - 1 else 1)
      else if char_at a = NUL then 0
      else strncmp (tl a) (tl b) n)"

text \<open>
  The characters a \<open>char*\<close> points to. A pointer to no live block is not read by the
  wrapper's own calls: \<open>is_niox_device\<close> is given \<open>nullptr\<close> or the block that the
  handler has just allocated.
\<close>

definition c_string :: "heap \<Rightarrow> ptr \<Rightarrow> string" where
  "c_string h p = (case block_at h p of None \<Rightarrow> [] | Some (n, str) \<Rightarrow> str)"

definition is_niox_device :: "heap \<Rightarrow> ptr \<Rightarrow> bool" where
  "is_niox_device h nm =
     (if nm = nullptr then False
      else (let prefix_len = strlen NIOX_PREFIX
            in strncmp (c_string h nm) NIOX_PREFIX prefix_len = 0))"

subsection \<open>The data of the wrapper\<close>

text \<open>\<open>BLEDevice\<close> of the header; \<open>int\<close> is 32 bits wide.\<close>

record BLEDevice =
  name :: ptr
  address :: ptr
  rssi :: int32
  hasRssi :: int32

text \<open>
  The platform's watcher object, as far as the wrapper drives it: the scanning mode it
  was given, whether a \<open>Received\<close> handler is attached, and whether it is running.
\<close>

datatype scanning_mode = Passive | Active

datatype watcher_status = Created | Started | Stopped

record watcher =
  ScanningMode :: scanning_mode
  Received :: bool
  Status :: watcher_status

definition new_watcher :: watcher where
  "new_watcher = \<lparr>ScanningMode = Passive, Received = False, Status = Created\<rparr>"

text \<open>
  What the handler is given: the event arguments with the advertisement they carry. The
  advertisement has more in it than the local name.
\<close>

record advertisement =
  LocalName :: "wchar list"
  ServiceUuids :: "128 word list"
  ManufacturerData :: "(16 word \<times> 8 word list) list"
  DataSections :: "(8 word \<times> 8 word list) list"
  Flags :: "8 word option"

record received_args =
  BluetoothAddress :: "64 word"
  RawSignalStrengthInDBm :: "16 word"
  Advertisement :: advertisement

text \<open>
  The globals of the file, then the free store and the platform: how often the apartment
  is initialised, the watchers that were released (as they were at that moment), the
  sleep of every detached timer thread, and the calls made to the client's callback
  (callback, device, user data).
\<close>

record state =
  g_initialized :: bool
  g_watcher :: "watcher option"
  g_discovered_devices :: "BLEDevice list"
  g_callback :: ptr
  g_user_data :: ptr
  g_niox_only :: bool
  free_store :: heap
  apartment_refs :: int
  released_watchers :: "watcher list"
  timer_threads :: "int32 list"
  callback_calls :: "(ptr \<times> BLEDevice \<times> ptr) list"

definition initial_state :: state where
  "initial_state =
     \<lparr>g_initialized = False, g_watcher = None, g_discovered_devices = [],
      g_callback = nullptr, g_user_data = nullptr, g_niox_only = False,
      free_store = [], apartment_refs = 0, released_watchers = [],
      timer_threads = [], callback_calls = []\<rparr>"

subsection \<open>winrt_initialize, winrt_check_bluetooth_state\<close>

text \<open>
  \<open>init_apartment\<close> throws or succeeds; which, is the platform's (\<open>ok\<close>). A
  successful call is one more initialisation of the apartment.
\<close>

definition init_apartment :: "bool \<Rightarrow> state \<Rightarrow> state option" where
  "init_apartment ok s = (if ok then Some (s\<lparr>apartment_refs := apartment_refs s + 1\<rparr>) else None)"

definition uninit_apartment :: "state \<Rightarrow> state" where
  "uninit_apartment s = s\<lparr>apartment_refs := apartment_refs s - 1\<rparr>"

definition winrt_initialize :: "bool \<Rightarrow> state \<Rightarrow> int32 \<times> state" where
  "winrt_initialize ok s =
     (if g_initialized s then (0, s)
      else case init_apartment ok s of
             Some s' \<Rightarrow> (0, s'\<lparr>g_initialized := True\<rparr>)
           | None \<Rightarrow> (- 1, s))"

text \<open>What the adapter and radio queries give: a null adapter, a null radio, a radio
  state, or an exception.\<close>

datatype radio_query =
  AdapterNull | RadioNull | RadioOn | RadioOff | RadioDisabled | RadioOther | QueryThrows

definition winrt_check_bluetooth_state :: "bool \<Rightarrow> radio_query \<Rightarrow> state \<Rightarrow> int32 \<times> state" where
  "winrt_check_bluetooth_state ok q s =
     (let (r, s0) = (if \<not> g_initialized s then winrt_initialize ok s else (0, s))
      in if r \<noteq> 0 then (3, s0)
         else case q of
                AdapterNull \<Rightarrow> (2, s0)
              | RadioNull \<Rightarrow> (2, s0)
              | RadioOn \<Rightarrow> (0, s0)
              | RadioOff \<Rightarrow> (1, s0)
              | RadioDisabled \<Rightarrow> (1, s0)
              | RadioOther \<Rightarrow> (3, s0)
              | QueryThrows \<Rightarrow> (3, s0))"

subsection \<open>winrt_stop_scan, winrt_cleanup, winrt_free_string\<close>

text \<open>
  \<open>Stop()\<close> may throw; the wrapper swallows that and resets the handle all the same
  (\<open>stop_ok\<close> is whether it did not throw). \<open>reset()\<close> of the \<open>unique_ptr\<close> releases
  the watcher it holds.
\<close>

definition watcher_Stop :: "bool \<Rightarrow> watcher \<Rightarrow> watcher" where
  "watcher_Stop stop_ok w = (if stop_ok then w\<lparr>Status := Stopped\<rparr> else w)"

definition reset_watcher :: "state \<Rightarrow> state" where
  "reset_watcher s =
     (case g_watcher s of
        None \<Rightarrow> s
      | Some w \<Rightarrow> s\<lparr>g_watcher := None, released_watchers := released_watchers s @ [w]\<rparr>)"

definition winrt_stop_scan :: "bool \<Rightarrow> state \<Rightarrow> state" where
  "winrt_stop_scan stop_ok s =
     (case g_watcher s of
        None \<Rightarrow> s
      | Some w \<Rightarrow> reset_watcher (s\<lparr>g_watcher := Some (watcher_Stop stop_ok w)\<rparr>))"

text \<open>
  The loop of \<open>winrt_cleanup\<close> over the stored devices: \<open>delete[]\<close> of every name and
  address that is not null, in the order of the list. It is undefined as soon as one of
  them has no live block any more.
\<close>

fun free_devices :: "BLEDevice list \<Rightarrow> heap \<Rightarrow> heap option" where
  "free_devices [] h = Some h"
| "free_devices (device # devices) h =
     (case (if name device \<noteq> nullptr then delete_array (name device) h else Some h) of
        None \<Rightarrow> None
      | Some h1 \<Rightarrow>
          (case (if address device \<noteq> nullptr then delete_array (address device) h1
                 else Some h1) of
             None \<Rightarrow> None
           | Some h2 \<Rightarrow> free_devices devices h2))"

text \<open>\<open>winrt_cleanup\<close> returns (\<open>Some\<close>) or runs into undefined behaviour (\<open>None\<close>).\<close>

definition winrt_cleanup :: "bool \<Rightarrow> state \<Rightarrow> state option" where
  "winrt_cleanup stop_ok s =
     (let s1 = (case g_watcher s of
                  None \<Rightarrow> s
                | Some w \<Rightarrow> reset_watcher (s\<lparr>g_watcher := Some (watcher_Stop stop_ok w)\<rparr>))
      in case free_devices (g_discovered_devices s1) (free_store s1) of
           None \<Rightarrow> None
         | Some h \<Rightarrow>
             (let s2 = s1\<lparr>free_store := h\<rparr>;
                  s3 = s2\<lparr>g_discovered_devices := []\<rparr>;
                  s4 = s3\<lparr>g_callback := nullptr, g_user_data := nullptr,
                         g_initialized := False\<rparr>
              in Some (uninit_apartment s4)))"

definition winrt_free_string :: "ptr \<Rightarrow> state \<Rightarrow> state option" where
  "winrt_free_string str s =
     (if str \<noteq> nullptr
      then (case delete_array str (free_store s) of
              None \<Rightarrow> None
            | Some h \<Rightarrow> Some (s\<lparr>free_store := h\<rparr>))
      else Some s)"

subsection \<open>winrt_start_scan and its Received handler\<close>

text \<open>
  The handler, called by the platform for one advertisement. It reads the globals as
  they are at that moment. The accessors of the event arguments, the allocations and
  \<open>push_back\<close> are taken to succeed, and the client's callback to return without
  calling into the wrapper; the call itself is recorded in \<open>callback_calls\<close>. The
  \<open>delete[]\<close> of a name that is not reported is of the block allocated a few lines
  above it, so it is always defined (lemma \<open>handler_delete_defined\<close> below) and the
  \<open>None\<close> case of it is never taken.
\<close>

definition on_received :: "(wchar list \<Rightarrow> string) \<Rightarrow> received_args \<Rightarrow> state \<Rightarrow> state" where
  "on_received utf8 args s =
     (let addr = BluetoothAddress args;
          rssi0 = RawSignalStrengthInDBm args;
          advertisement = Advertisement args;
          localName = LocalName advertisement;
          (nm, h1) = (if localName \<noteq> [] then hstring_to_cstring utf8 localName (free_store s)
                      else (nullptr, free_store s));
          should_report = (if g_niox_only s \<and> \<not> is_niox_device h1 nm then False else True)
      in if should_report then
           (let (a, h2) = format_bluetooth_address addr h1;
                device = \<lparr>name = nm, address = a, rssi = scast rssi0, hasRssi = 1\<rparr>;
                s1 = s\<lparr>free_store := h2,
                       g_discovered_devices := g_discovered_devices s @ [device]\<rparr>
            in if g_callback s \<noteq> nullptr
               then s1\<lparr>callback_calls :=
                         callback_calls s1 @ [(g_callback s, device, g_user_data s)]\<rparr>
               else s1)
         else s\<lparr>free_store :=
                  (if nm \<noteq> nullptr
                   then (case delete_array nm h1 of Some h \<Rightarrow> h | None \<Rightarrow> h1)
                   else h1)\<rparr>)"

text \<open>
  The \<open>try\<close> block of \<open>winrt_start_scan\<close>. Each call into the platform may throw, and
  so may the creation of the timer thread; \<open>fault\<close> says which one does, if any. The
  result is \<open>Inl\<close> with the state at the throw, or \<open>Inr\<close> with the state at
  \<open>return 0\<close>.
\<close>

datatype scan_fault =
  NoFault | CreateThrows | ScanningModeThrows | ReceivedThrows | StartThrows | ThreadThrows

definition set_watcher :: "watcher \<Rightarrow> state \<Rightarrow> state" where
  "set_watcher w s = s\<lparr>g_watcher := Some w\<rparr>"

definition try_start_scan ::
  "scan_fault \<Rightarrow> int32 \<Rightarrow> int32 \<Rightarrow> ptr \<Rightarrow> ptr \<Rightarrow> state \<Rightarrow> state + state" where
  "try_start_scan fault durationMs nioxOnly callback userData s =
     (let s1 = s\<lparr>g_callback := callback\<rparr>;
          s2 = s1\<lparr>g_user_data := userData\<rparr>;
          s3 = s2\<lparr>g_niox_only := (nioxOnly \<noteq> 0)\<rparr>;
          s4 = s3\<lparr>g_discovered_devices := []\<rparr>
      in if fault = CreateThrows then Inl s4
         else let w1 = new_watcher; s5 = set_watcher w1 s4
           in if fault = ScanningModeThrows then Inl s5
              else let w2 = w1\<lparr>ScanningMode := Active\<rparr>; s6 = set_watcher w2 s5
                in if fault = ReceivedThrows then Inl s6
                   else let w3 = w2\<lparr>Received := True\<rparr>; s7 = set_watcher w3 s6
                     in if fault = StartThrows then Inl s7
                        else let w4 = w3\<lparr>Status := Started\<rparr>; s8 = set_watcher w4 s7
                          in if fault = ThreadThrows then Inl s8
                             else Inr (s8\<lparr>timer_threads := timer_threads s8 @ [durationMs]\<rparr>))"

definition winrt_start_scan ::
  "bool \<Rightarrow> scan_fault \<Rightarrow> int32 \<Rightarrow> int32 \<Rightarrow> ptr \<Rightarrow> ptr \<Rightarrow> state \<Rightarrow> int32 \<times> state" where
  "winrt_start_scan ok fault durationMs nioxOnly callback userData s =
     (let (r, s0) = (if \<not> g_initialized s then winrt_initialize ok s else (0, s))
      in if r \<noteq> 0 then (- 1, s0)
         else if g_watcher s0 \<noteq> None then (- 1, s0)
         else case try_start_scan fault durationMs nioxOnly callback userData s0 of
                Inr s' \<Rightarrow> (0, s')
              | Inl s' \<Rightarrow> (- 1, reset_watcher s'))"

subsection \<open>The states the wrapper can be in\<close>

text \<open>
  From the initial values of the globals, by the calls of the header in any order and
  with any arguments, and by advertisements while a started watcher is held. The timer
  thread's call of \<open>winrt_stop_scan\<close> is one of the calls. A call that runs into
  undefined behaviour leads to no state.
\<close>

inductive reachable :: "state \<Rightarrow> bool" where
  r_init: "reachable initial_state"
| r_initialize: "reachable s \<Longrightarrow> reachable (snd (winrt_initialize ok s))"
| r_cleanup: "reachable s \<Longrightarrow> winrt_cleanup stop_ok s = Some s' \<Longrightarrow> reachable s'"
| r_check: "reachable s \<Longrightarrow> reachable (snd (winrt_check_bluetooth_state ok q s))"
| r_start: "reachable s \<Longrightarrow>
     reachable (snd (winrt_start_scan ok fault durationMs nioxOnly callback userData s))"
| r_stop: "reachable s \<Longrightarrow> reachable (winrt_stop_scan stop_ok s)"
| r_free: "reachable s \<Longrightarrow> winrt_free_string str s = Some s' \<Longrightarrow> reachable s'"
| r_received: "reachable s \<Longrightarrow> g_watcher s = Some w \<Longrightarrow> Status w = Started \<Longrightarrow>
     reachable (on_received utf8 args s)"

subsection \<open>A scan in progress\<close>

text \<open>
  What can happen between the start of a scan and its end: advertisements, and every
  call of the header except the two that end the scan (\<open>winrt_stop_scan\<close>, also from
  the timer thread, and \<open>winrt_cleanup\<close>). \<open>during_scan s0 s\<close>: from the state \<open>s0\<close>,
  in which the scan was started, the wrapper has come to \<open>s\<close> that way.
\<close>

inductive during_scan :: "state \<Rightarrow> state \<Rightarrow> bool" for s0 :: state where
  d_started: "during_scan s0 s0"
| d_received: "during_scan s0 s \<Longrightarrow> during_scan s0 (on_received utf8 args s)"
| d_initialize: "during_scan s0 s \<Longrightarrow> during_scan s0 (snd (winrt_initialize ok s))"
| d_check: "during_scan s0 s \<Longrightarrow> during_scan s0 (snd (winrt_check_bluetooth_state ok q s))"
| d_start: "during_scan s0 s \<Longrightarrow>
     during_scan s0 (snd (winrt_start_scan ok fault durationMs nioxOnly callback userData s))"
| d_free: "during_scan s0 s \<Longrightarrow> winrt_free_string str s = Some s' \<Longrightarrow> during_scan s0 s'"

subsection \<open>What the claims speak of\<close>

text \<open>The local name of an advertisement, converted as the handler converts it.\<close>

definition converted_name :: "(wchar list \<Rightarrow> string) \<Rightarrow> received_args \<Rightarrow> string" where
  "converted_name utf8 args = WideCharToMultiByte utf8 (c_str (LocalName (Advertisement args)))"

text \<open>
  A device is reported, in the words of the claims, when it is appended to the list of
  discovered devices and passed to the callback: from \<open>s\<close> to \<open>s'\<close> the list has grown by
  one and so have the calls of the callback.
\<close>

definition appended :: "state \<Rightarrow> state \<Rightarrow> bool" where
  "appended s s' = (length (g_discovered_devices s') = Suc (length (g_discovered_devices s)))"

definition passed_to_callback :: "state \<Rightarrow> state \<Rightarrow> bool" where
  "passed_to_callback s s' = (length (callback_calls s') = Suc (length (callback_calls s)))"

definition reported :: "state \<Rightarrow> state \<Rightarrow> bool" where
  "reported s s' = (appended s s' \<and> passed_to_callback s s')"

text \<open>
  The strings that \<open>winrt_cleanup\<close> deletes: the names and addresses, not null, of the
  devices in the list, in the order of the deletes (\<open>delete_all\<close> is those deletes one
  after the other). They are all live when they are pairwise different and each has a
  live block.
\<close>

definition device_strings :: "BLEDevice \<Rightarrow> ptr list" where
  "device_strings d = filter (\<lambda>p. p \<noteq> nullptr) [name d, address d]"

definition stored_strings :: "state \<Rightarrow> ptr list" where
  "stored_strings s = concat (map device_strings (g_discovered_devices s))"

fun delete_all :: "ptr list \<Rightarrow> heap \<Rightarrow> heap option" where
  "delete_all [] h = Some h"
| "delete_all (p # ps) h =
     (case delete_array p h of None \<Rightarrow> None | Some h' \<Rightarrow> delete_all ps h')"

definition stored_strings_live :: "state \<Rightarrow> bool" where
  "stored_strings_live s =
     (distinct (stored_strings s)
      \<and> list_all (\<lambda>p. block_at (free_store s) p \<noteq> None) (stored_strings s))"

subsection \<open>Advertisements and scans to run the model on\<close>

text \<open>An advertisement named \<open>NIOX PRO 1\<close>, one named \<open>Mouse\<close> and one without a name.\<close>

definition niox_args :: received_args where
  "niox_args =
     \<lparr>BluetoothAddress = 0xA1B2C3D4E5F6, RawSignalStrengthInDBm = - 60,
      Advertisement = \<lparr>LocalName = [0x4E, 0x49, 0x4F, 0x58, 0x20, 0x50, 0x52, 0x4F, 0x20, 0x31],
        ServiceUuids = [], ManufacturerData = [], DataSections = [], Flags = None\<rparr>\<rparr>"

definition mouse_args :: received_args where
  "mouse_args =
     \<lparr>BluetoothAddress = 0x00000A0B0C0D, RawSignalStrengthInDBm = - 71,
      Advertisement = \<lparr>LocalName = [0x4D, 0x6F, 0x75, 0x73, 0x65],
        ServiceUuids = [], ManufacturerData = [(0x004C, [2, 21])], DataSections = [],
        Flags = Some 6\<rparr>\<rparr>"

definition nameless_args :: received_args where
  "nameless_args =
     \<lparr>BluetoothAddress = 0xFFFF00000000007F, RawSignalStrengthInDBm = - 90,
      Advertisement = \<lparr>LocalName = [], ServiceUuids = [0x180F], ManufacturerData = [],
        DataSections = [(0xFF, [1, 2, 3])], Flags = None\<rparr>\<rparr>"

text \<open>
  The advertisement \<open>niox_args\<close> again from another address, at another signal
  strength and with other payload, the local name alone being the same.
\<close>

definition niox_twin_args :: received_args where
  "niox_twin_args =
     \<lparr>BluetoothAddress = 0x5, RawSignalStrengthInDBm = - 20,
      Advertisement = (Advertisement niox_args)
        \<lparr>ServiceUuids := [0x1234], ManufacturerData := [(0x004C, [1])],
         DataSections := [(9, [0x4D, 0x6F])], Flags := Some 6\<rparr>\<rparr>"

text \<open>
  A scan started from the initial state, with the platform answering every call, for
  5000 ms, with the given \<open>nioxOnly\<close>, callback and user data.
\<close>

definition scan_started :: "int32 \<Rightarrow> ptr \<Rightarrow> ptr \<Rightarrow> state" where
  "scan_started nioxOnly callback userData =
     snd (winrt_start_scan True NoFault 5000 nioxOnly callback userData initial_state)"

section \<open>Properties\<close>

subsection \<open>The address string\<close>

lemma to_hex_small: "n < 16 \<Longrightarrow> to_hex n = [hex_digit n]"
  by (simp add: to_hex.simps)

lemma hex_digit_mod: "hex_digit (n mod 16) = hex_digit n"
  by (simp add: hex_digit_def)

lemma to_hex_byte:
  assumes "n < 256"
  shows "replicate (2 - length (to_hex n)) CHR ''0'' @ to_hex n = hex_pair n"
proof (cases "n < 16")
  case True
  then show ?thesis by (simp add: to_hex_small hex_pair_def hex_digit_def)
next
  case False
  from assms have "n div 16 < 16" by simp
  then have "to_hex n = [hex_digit (n div 16), hex_digit n]"
    using False by (subst to_hex.simps) (simp add: to_hex_small)
  then show ?thesis by (simp add: hex_pair_def hex_digit_mod)
qed

lemma FF_mask: "(0xFF :: 64 word) = mask 8"
  by (simp add: mask_eq_exp_minus_1)

lemma unat_byte:
  "unat (ucast (drop_bit (8 * i) (a :: 64 word) AND 0xFF) :: 32 word) = address_byte a i"
proof -
  have "drop_bit (8 * i) a AND 0xFF = take_bit 8 (drop_bit (8 * i) a)"
    by (simp add: FF_mask take_bit_eq_mask)
  then have "unat (ucast (drop_bit (8 * i) a AND 0xFF) :: 32 word)
      = take_bit 32 (take_bit 8 (drop_bit (8 * i) (unat a)))"
    by (simp add: unsigned_ucast_eq unsigned_take_bit_eq unat_drop_bit_eq)
  also have "\<dots> = (unat a div 2 ^ (8 * i)) mod 2 ^ 8"
    by (simp add: take_bit_eq_mod drop_bit_eq_div)
  also have "\<dots> = address_byte a i"
    by (simp add: address_byte_def power_mult)
  finally show ?thesis .
qed

lemma sprintf_02X_byte:
  "sprintf_02X (ucast (drop_bit (8 * i) (a :: 64 word) AND 0xFF)) = hex_pair (address_byte a i)"
proof -
  have "address_byte a i < 256" by (simp add: address_byte_def)
  then show ?thesis
    by (simp add: sprintf_02X_def Let_def unat_byte to_hex_byte)
qed

lemma sprintf_address_colon_hex: "sprintf_address a = colon_hex a"
proof -
  have b0: "sprintf_02X (ucast (a AND 0xFF)) = hex_pair (address_byte a 0)"
    using sprintf_02X_byte [of 0 a] by simp
  show ?thesis
    unfolding sprintf_address_def colon_hex_def
    using sprintf_02X_byte [of 5 a] sprintf_02X_byte [of 4 a] sprintf_02X_byte [of 3 a]
      sprintf_02X_byte [of 2 a] sprintf_02X_byte [of 1 a] b0
    by simp
qed

lemma hex_digit_in: "hex_digit n \<in> set ''0123456789ABCDEF''"
proof -
  have "n mod 16 < length ''0123456789ABCDEF''" by simp
  then show ?thesis unfolding hex_digit_def by (rule nth_mem)
qed

lemma hex_digit_not_NUL: "hex_digit n \<noteq> NUL"
  using hex_digit_in [of n] by (auto simp: NUL_def)

lemma length_colon_hex: "length (colon_hex a) = 17"
  by (simp add: colon_hex_def hex_pair_def)

lemma colon_not_NUL: "CHR '':'' \<noteq> NUL"
  by (simp add: NUL_def)

lemma strlen_colon_hex: "strlen (colon_hex a) = 17"
  by (simp add: colon_hex_def hex_pair_def hex_digit_not_NUL colon_not_NUL)

lemma mask48: "(0xFFFFFFFFFFFF :: 64 word) = mask 48"
  by (simp add: mask_eq_exp_minus_1)

lemma address_byte_low48:
  assumes "i < 6"
  shows "address_byte (a AND 0xFFFFFFFFFFFF) i = address_byte a i"
proof -
  have "unat (a AND 0xFFFFFFFFFFFF) = take_bit 48 (unat a)"
    by (simp add: mask48 unsigned_take_bit_eq flip: take_bit_eq_mask)
  moreover have "address_byte b i = take_bit 8 (drop_bit (8 * i) (unat b))" for b
    by (simp add: address_byte_def take_bit_eq_mod drop_bit_eq_div power_mult)
  moreover have "8 \<le> 48 - 8 * i"
    using assms by arith
  then have "take_bit 8 (drop_bit (8 * i) (take_bit 48 (unat a))) = take_bit 8 (drop_bit (8 * i) (unat a))"
    by (simp add: drop_bit_take_bit min_def)
  ultimately show ?thesis by simp
qed

lemma colon_hex_low48: "colon_hex (a AND 0xFFFFFFFFFFFF) = colon_hex a"
  by (simp add: colon_hex_def address_byte_low48)

lemma map_of_above_top: "heap_top h < p \<Longrightarrow> map_of h p = None"
  by (induction h) auto

lemma new_array_fresh: "block_at h (fst (new_array n str h)) = None"
  by (simp add: new_array_def block_at_def Let_def map_of_above_top)

lemma new_array_nonnull: "fst (new_array n str h) \<noteq> nullptr"
  by (simp add: new_array_def nullptr_def Let_def)

lemma new_array_block: "block_at (snd (new_array n str h)) (fst (new_array n str h)) = Some (n, str)"
  by (simp add: new_array_def block_at_def Let_def)

text \<open>
  Claim C4. For every 64-bit address, \<open>format_bluetooth_address\<close> returns a pointer that
  is not null and was not the address of a live block (newly allocated), to a block of 18
  characters holding the 17 characters \<open>XX:XX:XX:XX:XX:XX\<close> and their terminating NUL:
  bytes 5 down to 0 of the address, each as two upper-case hexadecimal digits, with colons
  between them (\<open>colon_hex\<close>). Bits 63 to 48 of the address do not change the result.
\<close>

theorem format_bluetooth_address_string:
  "fst (format_bluetooth_address addr h) \<noteq> nullptr
   \<and> block_at h (fst (format_bluetooth_address addr h)) = None
   \<and> block_at (snd (format_bluetooth_address addr h)) (fst (format_bluetooth_address addr h))
       = Some (18, colon_hex addr)
   \<and> length (colon_hex addr) = 17
   \<and> strlen (colon_hex addr) = 17
   \<and> format_bluetooth_address (addr AND 0xFFFFFFFFFFFF) h = format_bluetooth_address addr h"
  unfolding format_bluetooth_address_def
  by (simp add: new_array_fresh new_array_nonnull new_array_block sprintf_address_colon_hex
      length_colon_hex strlen_colon_hex colon_hex_low48)

subsection \<open>Initialisation and the start of a scan\<close>

lemma winrt_initialize_when_initialized:
  "g_initialized s \<Longrightarrow> winrt_initialize ok s = (0, s)"
  by (simp add: winrt_initialize_def)

lemma winrt_initialize_result:
  "fst (winrt_initialize ok s) = 0 \<Longrightarrow> g_initialized (snd (winrt_initialize ok s))"
  by (simp add: winrt_initialize_def init_apartment_def split: if_splits)

lemma winrt_initialize_failure:
  "fst (winrt_initialize ok s) \<noteq> 0 \<Longrightarrow> winrt_initialize ok s = (- 1, s)"
  by (simp add: winrt_initialize_def init_apartment_def split: if_splits)

text \<open>
  Claim C10, as the code has it. A call of \<open>winrt_initialize\<close> in a state that is already
  initialised returns 0 and changes nothing: not a global, and not the apartment, whatever
  \<open>init_apartment\<close> would have answered. Two calls in a row, the platform answering
  \<open>init_apartment\<close> with \<open>ok1\<close> in the first and \<open>ok2\<close> in the second, end in the state
  and the return value of the first call alone exactly when the state was initialised, or
  the first call succeeded, or \<open>init_apartment\<close> fails in the second call too. What is
  left is the retry: a first call that fails returns -1 and changes nothing, and a second
  call that succeeds returns 0 with the initialised flag set.
\<close>

theorem winrt_initialize_idempotent:
  "(g_initialized s \<longrightarrow> winrt_initialize ok1 s = (0, s))
   \<and> (winrt_initialize ok2 (snd (winrt_initialize ok1 s)) = winrt_initialize ok1 s
        \<longleftrightarrow> g_initialized s \<or> ok1 \<or> \<not> ok2)
   \<and> (\<not> g_initialized s \<and> \<not> ok1 \<and> ok2 \<longrightarrow>
        winrt_initialize ok1 s = (- 1, s)
        \<and> fst (winrt_initialize ok2 (snd (winrt_initialize ok1 s))) = 0
        \<and> g_initialized (snd (winrt_initialize ok2 (snd (winrt_initialize ok1 s)))))"
  by (auto simp: winrt_initialize_def init_apartment_def)

text \<open>
  From the initial state with the platform answering: the second call finds the state
  initialised, returns 0 and leaves the apartment initialised once.
\<close>

theorem winrt_initialize_idempotent_witness:
  "g_initialized (snd (winrt_initialize True initial_state))
   \<and> winrt_initialize False (snd (winrt_initialize True initial_state))
       = winrt_initialize True initial_state
   \<and> winrt_initialize False (snd (winrt_initialize True initial_state))
       = (0, snd (winrt_initialize True initial_state))
   \<and> apartment_refs (snd (winrt_initialize False (snd (winrt_initialize True initial_state)))) = 1"
proof -
  have i: "g_initialized (snd (winrt_initialize True initial_state))"
    by (simp add: winrt_initialize_def init_apartment_def initial_state_def)
  have a: "apartment_refs (snd (winrt_initialize True initial_state)) = 1"
    by (simp add: winrt_initialize_def init_apartment_def initial_state_def)
  from winrt_initialize_idempotent [of "snd (winrt_initialize True initial_state)" False False] i
  have 1: "winrt_initialize False (snd (winrt_initialize True initial_state))
       = (0, snd (winrt_initialize True initial_state))"
    by blast
  from winrt_initialize_idempotent [of initial_state True False]
  have 2: "winrt_initialize False (snd (winrt_initialize True initial_state))
       = winrt_initialize True initial_state"
    by blast
  show ?thesis
    using i a 1 2 by simp
qed

text \<open>
  Claim C10 as it was stated has two calls in a row equal to one in every state. From the
  initial state, with \<open>init_apartment\<close> throwing in the first call and succeeding in the
  second, one call returns -1 and leaves the state uninitialised; two calls return 0 and
  leave it initialised.
\<close>

theorem winrt_initialize_retry_differs:
  "winrt_initialize False initial_state = (- 1, initial_state)
   \<and> fst (winrt_initialize True (snd (winrt_initialize False initial_state))) = 0
   \<and> g_initialized (snd (winrt_initialize True (snd (winrt_initialize False initial_state))))
   \<and> \<not> g_initialized (snd (winrt_initialize False initial_state))
   \<and> winrt_initialize True (snd (winrt_initialize False initial_state))
       \<noteq> winrt_initialize False initial_state"
  by (simp add: winrt_initialize_def init_apartment_def initial_state_def)

lemma watcher_needs_initialized:
  "reachable s \<Longrightarrow> g_watcher s \<noteq> None \<Longrightarrow> g_initialized s"
proof (induction rule: reachable.induct)
  case r_init
  then show ?case by (simp add: initial_state_def)
next
  case (r_initialize s ok)
  then show ?case
    by (auto simp: winrt_initialize_def init_apartment_def split: if_splits)
next
  case (r_cleanup s stop_ok s')
  then show ?case
    by (auto simp: winrt_cleanup_def reset_watcher_def uninit_apartment_def Let_def
        split: option.splits)
next
  case (r_check s ok q)
  then show ?case
    by (auto simp: winrt_check_bluetooth_state_def winrt_initialize_def init_apartment_def
        split: if_splits radio_query.splits)
next
  case (r_start s ok fault durationMs nioxOnly callback userData)
  then show ?case
    by (auto simp: winrt_start_scan_def try_start_scan_def set_watcher_def reset_watcher_def
        winrt_initialize_def init_apartment_def Let_def split: if_splits)
next
  case (r_stop s stop_ok)
  then show ?case
    by (auto simp: winrt_stop_scan_def reset_watcher_def split: option.splits)
next
  case (r_free s str s')
  then show ?case by (auto simp: winrt_free_string_def split: if_splits option.splits)
next
  case (r_received s w utf8 args)
  then show ?case
    by (auto simp: on_received_def Let_def split: prod.splits if_splits)
qed

text \<open>
  Claim C8. In every state the wrapper can be in, a call of \<open>winrt_start_scan\<close> while a
  watcher is held returns -1 and leaves the whole state as it was: the callback, the user
  data, the niox-only flag, the device list and the watcher, and everything else.
\<close>

theorem winrt_start_scan_while_scanning:
  assumes "reachable s" and "g_watcher s \<noteq> None"
  shows "winrt_start_scan ok fault durationMs nioxOnly callback userData s = (- 1, s)"
proof -
  from assms have "g_initialized s" by (rule watcher_needs_initialized)
  with assms(2) show ?thesis by (simp add: winrt_start_scan_def)
qed


lemma reachable_scanning:
  "reachable (snd (winrt_start_scan True NoFault 5000 1 7 9 initial_state))"
  by (rule r_start) (rule r_init)

theorem winrt_start_scan_while_scanning_witness:
  "winrt_start_scan True NoFault 100 0 3 4 (snd (winrt_start_scan True NoFault 5000 1 7 9 initial_state))
     = (- 1, snd (winrt_start_scan True NoFault 5000 1 7 9 initial_state))"
proof -
  have "g_watcher (snd (winrt_start_scan True NoFault 5000 1 7 9 initial_state)) \<noteq> None"
    by (simp add: winrt_start_scan_def try_start_scan_def set_watcher_def winrt_initialize_def
        init_apartment_def initial_state_def Let_def)
  with reachable_scanning show ?thesis
    by (rule winrt_start_scan_while_scanning)
qed

lemma try_start_scan_Inr:
  assumes "try_start_scan fault durationMs nioxOnly callback userData s = Inr s'"
  shows "fault = NoFault"
    and "s' = s\<lparr>g_callback := callback, g_user_data := userData, g_niox_only := (nioxOnly \<noteq> 0),
                g_discovered_devices := [],
                g_watcher := Some \<lparr>ScanningMode = Active, Received = True, Status = Started\<rparr>,
                timer_threads := timer_threads s @ [durationMs]\<rparr>"
  using assms
  by (cases fault; simp add: try_start_scan_def set_watcher_def new_watcher_def Let_def)+

lemma try_start_scan_StartThrows:
  "try_start_scan StartThrows durationMs nioxOnly callback userData s
     = Inl (s\<lparr>g_callback := callback, g_user_data := userData, g_niox_only := (nioxOnly \<noteq> 0),
              g_discovered_devices := [],
              g_watcher := Some \<lparr>ScanningMode = Active, Received = True, Status = Created\<rparr>\<rparr>)"
  by (simp add: try_start_scan_def set_watcher_def new_watcher_def Let_def)

lemma winrt_start_scan_success:
  assumes "winrt_start_scan ok fault durationMs nioxOnly callback userData s = (0, s')"
  shows "g_watcher s = None"
    and "fst (if \<not> g_initialized s then winrt_initialize ok s else (0, s)) = 0"
    and "try_start_scan fault durationMs nioxOnly callback userData
           (snd (if \<not> g_initialized s then winrt_initialize ok s else (0, s))) = Inr s'"
  using assms
  by (auto simp: winrt_start_scan_def winrt_initialize_def init_apartment_def Let_def
      split: if_splits sum.splits)

text \<open>
  Claim C6. After a call of \<open>winrt_start_scan\<close> that returned 0 the device list is empty,
  the callback and user-data pointers are the arguments of the call, the niox-only flag is
  \<open>nioxOnly \<noteq> 0\<close>, and a started watcher in active mode with the handler attached is
  held; one timer thread with the duration was added, no callback was called and nothing
  was allocated. The globals are assigned and the list is cleared before \<open>Start()\<close>: the
  same call with \<open>Start()\<close> throwing returns -1 in the same state, except that the
  watcher, never started, was released and no timer thread was made.
\<close>

theorem winrt_start_scan_fresh_state:
  assumes "winrt_start_scan ok fault durationMs nioxOnly callback userData s = (0, s')"
  shows "g_discovered_devices s' = []
     \<and> g_callback s' = callback \<and> g_user_data s' = userData \<and> g_niox_only s' = (nioxOnly \<noteq> 0)
     \<and> g_watcher s' = Some \<lparr>ScanningMode = Active, Received = True, Status = Started\<rparr>
     \<and> g_initialized s'
     \<and> timer_threads s' = timer_threads s @ [durationMs]
     \<and> callback_calls s' = callback_calls s
     \<and> free_store s' = free_store s
     \<and> fst (winrt_start_scan ok StartThrows durationMs nioxOnly callback userData s) = - 1
     \<and> snd (winrt_start_scan ok StartThrows durationMs nioxOnly callback userData s)
         = s'\<lparr>g_watcher := None, timer_threads := timer_threads s,
              released_watchers := released_watchers s
                @ [\<lparr>ScanningMode = Active, Received = True, Status = Created\<rparr>]\<rparr>"
proof -
  define e where "e = (if \<not> g_initialized s then winrt_initialize ok s else (0, s))"
  note facts = winrt_start_scan_success [OF assms, folded e_def]
  note r = try_start_scan_Inr(2) [OF facts(3)]
  have e: "e = (0, snd e)"
    using facts(2) by (cases e) simp
  have w0: "g_watcher (snd e) = None"
    using facts(1) by (auto simp: e_def winrt_initialize_def init_apartment_def)
  have i0: "g_initialized (snd e)"
    using facts(2) by (auto simp: e_def winrt_initialize_def init_apartment_def split: if_splits)
  have frame: "timer_threads (snd e) = timer_threads s" "callback_calls (snd e) = callback_calls s"
    "free_store (snd e) = free_store s" "released_watchers (snd e) = released_watchers s"
    by (auto simp: e_def winrt_initialize_def init_apartment_def)
  have thrown: "winrt_start_scan ok StartThrows durationMs nioxOnly callback userData s
      = (- 1, reset_watcher (snd e\<lparr>g_callback := callback, g_user_data := userData,
            g_niox_only := (nioxOnly \<noteq> 0), g_discovered_devices := [],
            g_watcher := Some \<lparr>ScanningMode = Active, Received = True, Status = Created\<rparr>\<rparr>))"
    unfolding winrt_start_scan_def e_def [symmetric]
    by (subst e) (simp add: w0 try_start_scan_StartThrows)
  show ?thesis
    by (simp add: r thrown reset_watcher_def w0 i0 frame)
qed

theorem winrt_start_scan_fresh_state_witness:
  "g_discovered_devices (snd (winrt_start_scan True NoFault 5000 1 7 9 initial_state)) = []
   \<and> g_callback (snd (winrt_start_scan True NoFault 5000 1 7 9 initial_state)) = 7
   \<and> g_user_data (snd (winrt_start_scan True NoFault 5000 1 7 9 initial_state)) = 9
   \<and> g_niox_only (snd (winrt_start_scan True NoFault 5000 1 7 9 initial_state))
   \<and> timer_threads (snd (winrt_start_scan True NoFault 5000 1 7 9 initial_state)) = [5000]"
proof -
  have "fst (winrt_start_scan True NoFault 5000 1 7 9 initial_state) = 0"
    by (simp add: winrt_start_scan_def try_start_scan_def set_watcher_def winrt_initialize_def
        init_apartment_def initial_state_def Let_def)
  then have "winrt_start_scan True NoFault 5000 1 7 9 initial_state
      = (0, snd (winrt_start_scan True NoFault 5000 1 7 9 initial_state))"
    by (cases "winrt_start_scan True NoFault 5000 1 7 9 initial_state") simp
  from winrt_start_scan_fresh_state [OF this] show ?thesis
    by (simp add: initial_state_def)
qed

subsection \<open>The Received handler\<close>

lemma strncmp_prefix:
  "NUL \<notin> set p \<Longrightarrow> (strncmp a p (length p) = 0) = prefix p a"
proof (induction p arbitrary: a)
  case Nil
  then show ?case by simp
next
  case (Cons c p)
  then show ?case
    by (cases a) (auto simp: char_at_def)
qed

lemma strlen_no_NUL: "NUL \<notin> set p \<Longrightarrow> strlen p = length p"
  by (induction p) auto

lemma NIOX_PREFIX_no_NUL: "NUL \<notin> set NIOX_PREFIX"
  by (simp add: NIOX_PREFIX_def NUL_def)

lemma is_niox_device_iff:
  "is_niox_device h nm = (nm \<noteq> nullptr \<and> prefix NIOX_PREFIX (c_string h nm))"
  by (simp add: is_niox_device_def Let_def strlen_no_NUL strncmp_prefix NIOX_PREFIX_no_NUL)

lemma hstring_to_cstring_eq:
  "hstring_to_cstring utf8 ln h =
     (Suc (heap_top h),
      (Suc (heap_top h),
       (length (WideCharToMultiByte utf8 (c_str ln)) + 1, WideCharToMultiByte utf8 (c_str ln))) # h)"
  by (simp add: hstring_to_cstring_def wstring_to_cstring_def new_array_def Let_def)

lemma drop_above_top: "heap_top h < p \<Longrightarrow> drop_block p h = h"
  by (induction h) (auto simp: drop_block_def)

lemma delete_fresh: "delete_array (Suc (heap_top h)) ((Suc (heap_top h), b) # h) = Some h"
  using drop_above_top [of h "Suc (heap_top h)"]
  by (simp add: delete_array_def drop_block_def block_at_def nullptr_def)

lemma handler_delete_defined:
  "delete_array (fst (hstring_to_cstring utf8 ln h)) (snd (hstring_to_cstring utf8 ln h)) = Some h"
  by (simp add: hstring_to_cstring_eq delete_fresh)

lemma c_string_head: "c_string ((p, (n, str)) # h) p = str"
  by (simp add: c_string_def block_at_def)

lemma converted_name_no_name:
  "LocalName (Advertisement args) = [] \<Longrightarrow> converted_name utf8 args = []"
  by (simp add: converted_name_def c_str_def WideCharToMultiByte_def)

lemma prefix_needs_name:
  "prefix NIOX_PREFIX (converted_name utf8 args) \<Longrightarrow> LocalName (Advertisement args) \<noteq> []"
  by (auto simp: converted_name_no_name NIOX_PREFIX_def)

lemma on_received_skip:
  assumes "g_niox_only s" and "\<not> prefix NIOX_PREFIX (converted_name utf8 args)"
  shows "on_received utf8 args s = s"
  using assms
  by (auto simp: on_received_def Let_def hstring_to_cstring_eq is_niox_device_iff
      c_string_head converted_name_def delete_fresh nullptr_def)

lemma on_received_report:
  assumes "g_niox_only s \<longrightarrow> prefix NIOX_PREFIX (converted_name utf8 args)"
  shows "on_received utf8 args s =
     (let h0 = free_store s;
          nm = (if LocalName (Advertisement args) = [] then nullptr else Suc (heap_top h0));
          h1 = (if LocalName (Advertisement args) = [] then h0
                else (nm, (length (converted_name utf8 args) + 1, converted_name utf8 args)) # h0);
          a = Suc (heap_top h1);
          device = \<lparr>name = nm, address = a, rssi = scast (RawSignalStrengthInDBm args),
                     hasRssi = 1\<rparr>
      in s\<lparr>free_store := (a, (18, sprintf_address (BluetoothAddress args))) # h1,
           g_discovered_devices := g_discovered_devices s @ [device],
           callback_calls := callback_calls s @
             (if g_callback s \<noteq> nullptr then [(g_callback s, device, g_user_data s)] else [])\<rparr>)"
proof (cases "LocalName (Advertisement args) = []")
  case True
  then show ?thesis
    using assms prefix_needs_name [of utf8 args]
    by (auto simp: on_received_def Let_def is_niox_device_iff format_bluetooth_address_def
        new_array_def)
next
  case False
  then show ?thesis
    using assms
    by (auto simp: on_received_def Let_def hstring_to_cstring_eq is_niox_device_iff
        c_string_head converted_name_def format_bluetooth_address_def new_array_def nullptr_def)
qed

lemma on_received_globals:
  "g_niox_only (on_received utf8 args s) = g_niox_only s"
  "g_callback (on_received utf8 args s) = g_callback s"
  "g_user_data (on_received utf8 args s) = g_user_data s"
  "g_watcher (on_received utf8 args s) = g_watcher s"
  "g_initialized (on_received utf8 args s) = g_initialized s"
  by (cases "g_niox_only s \<longrightarrow> prefix NIOX_PREFIX (converted_name utf8 args)";
      simp add: on_received_skip on_received_report Let_def)+

lemma during_scan_globals:
  assumes "during_scan s0 s" and "g_watcher s0 \<noteq> None" and "g_initialized s0"
  shows "g_watcher s = g_watcher s0 \<and> g_initialized s \<and> g_niox_only s = g_niox_only s0
     \<and> g_callback s = g_callback s0 \<and> g_user_data s = g_user_data s0"
  using assms
proof (induction rule: during_scan.induct)
  case d_started
  then show ?case by simp
next
  case (d_received s utf8 args)
  then show ?case by (simp add: on_received_globals)
next
  case (d_initialize s ok)
  then show ?case by (simp add: winrt_initialize_def)
next
  case (d_check s ok q)
  then show ?case
    by (simp add: winrt_check_bluetooth_state_def split: radio_query.splits)
next
  case (d_start s ok fault durationMs nioxOnly callback userData)
  then show ?case by (simp add: winrt_start_scan_def)
next
  case (d_free s str s')
  then show ?case by (auto simp: winrt_free_string_def split: if_splits option.splits)
qed

lemma started_scan_state:
  assumes "winrt_start_scan ok fault durationMs nioxOnly callback userData s = (0, s')"
  shows "g_initialized s'" and "g_watcher s' \<noteq> None" and "g_niox_only s' = (nioxOnly \<noteq> 0)"
    and "g_callback s' = callback" and "g_user_data s' = userData"
proof -
  define e where "e = (if \<not> g_initialized s then winrt_initialize ok s else (0, s))"
  note facts = winrt_start_scan_success [OF assms, folded e_def]
  note r = try_start_scan_Inr(2) [OF facts(3)]
  have i0: "g_initialized (snd e)"
    using facts(2) by (auto simp: e_def winrt_initialize_def init_apartment_def split: if_splits)
  show "g_initialized s'" and "g_watcher s' \<noteq> None" and "g_niox_only s' = (nioxOnly \<noteq> 0)"
    and "g_callback s' = callback" and "g_user_data s' = userData"
    by (simp_all add: r i0)
qed

lemma started_scan_globals:
  assumes "fst (winrt_start_scan ok fault durationMs nioxOnly callback userData s0) = 0"
    and "during_scan (snd (winrt_start_scan ok fault durationMs nioxOnly callback userData s0)) s"
  shows "g_niox_only s = (nioxOnly \<noteq> 0)" and "g_callback s = callback"
    and "g_user_data s = userData"
proof -
  let ?r = "winrt_start_scan ok fault durationMs nioxOnly callback userData s0"
  from assms(1) have r: "?r = (0, snd ?r)"
    by (cases ?r) simp
  note f = started_scan_state [OF r]
  from during_scan_globals [OF assms(2) f(2) f(1)] f
  show "g_niox_only s = (nioxOnly \<noteq> 0)" and "g_callback s = callback"
    and "g_user_data s = userData"
    by simp_all
qed

lemma on_received_appended:
  "appended s (on_received utf8 args s)
     = (g_niox_only s \<longrightarrow> prefix NIOX_PREFIX (converted_name utf8 args))"
  by (cases "g_niox_only s \<longrightarrow> prefix NIOX_PREFIX (converted_name utf8 args)")
    (auto simp: appended_def on_received_skip on_received_report Let_def)

lemma on_received_passed:
  "passed_to_callback s (on_received utf8 args s)
     = (g_callback s \<noteq> nullptr
        \<and> (g_niox_only s \<longrightarrow> prefix NIOX_PREFIX (converted_name utf8 args)))"
  by (cases "g_niox_only s \<longrightarrow> prefix NIOX_PREFIX (converted_name utf8 args)")
    (auto simp: passed_to_callback_def on_received_skip on_received_report Let_def)

lemma on_received_report_lists:
  assumes "g_niox_only s \<longrightarrow> prefix NIOX_PREFIX (converted_name utf8 args)"
  shows "\<exists>d. g_discovered_devices (on_received utf8 args s) = g_discovered_devices s @ [d]
     \<and> callback_calls (on_received utf8 args s) = callback_calls s @
          (if g_callback s \<noteq> nullptr then [(g_callback s, d, g_user_data s)] else [])
     \<and> (name d = nullptr) = (LocalName (Advertisement args) = [])"
  by (simp add: on_received_report [OF assms] Let_def nullptr_def)

lemma scan_started_eq:
  "scan_started nioxOnly callback userData =
     \<lparr>g_initialized = True,
      g_watcher = Some \<lparr>ScanningMode = Active, Received = True, Status = Started\<rparr>,
      g_discovered_devices = [], g_callback = callback, g_user_data = userData,
      g_niox_only = (nioxOnly \<noteq> 0), free_store = [], apartment_refs = 1,
      released_watchers = [], timer_threads = [5000], callback_calls = []\<rparr>"
  by (simp add: scan_started_def winrt_start_scan_def try_start_scan_def set_watcher_def
      new_watcher_def winrt_initialize_def init_apartment_def initial_state_def Let_def)

lemma scan_started_returns_0:
  "fst (winrt_start_scan True NoFault 5000 nioxOnly callback userData initial_state) = 0"
  by (simp add: winrt_start_scan_def try_start_scan_def set_watcher_def
      new_watcher_def winrt_initialize_def init_apartment_def initial_state_def Let_def)

lemma niox_args_name: "converted_name utf8_encode niox_args = ''NIOX PRO 1''"
  by (simp add: converted_name_def niox_args_def c_str_def WideCharToMultiByte_def
      utf8_unit_def char_of_def bit_Suc_0_iff)

lemma mouse_args_name: "converted_name utf8_encode mouse_args = ''Mouse''"
  by (simp add: converted_name_def mouse_args_def c_str_def WideCharToMultiByte_def
      utf8_unit_def char_of_def bit_Suc_0_iff)

lemma niox_args_prefix: "prefix NIOX_PREFIX (converted_name utf8_encode niox_args)"
  by (simp add: niox_args_name NIOX_PREFIX_def)

lemma mouse_args_no_prefix: "\<not> prefix NIOX_PREFIX (converted_name utf8_encode mouse_args)"
  by (simp add: mouse_args_name NIOX_PREFIX_def)

subsection \<open>Which advertisements are reported\<close>

text \<open>
  Claim C1, as the code has it. Take a scan that \<open>winrt_start_scan\<close> started (it returned 0)
  with \<open>nioxOnly \<noteq> 0\<close>, and any advertisements handled since. For the next advertisement:
  its device is appended to the list of discovered devices if and only if its local name,
  converted to UTF-8, starts with the eight characters \<open>NIOX PRO\<close>; it is passed to the
  callback if and only if, moreover, the callback pointer given to \<open>winrt_start_scan\<close> is
  not null, and then together with the user data of that call. An advertisement that is not
  reported leaves the state as it was, and one whose local name is empty is never reported.
\<close>

theorem niox_only_scan_appends_prefix_names:
  assumes "fst (winrt_start_scan ok fault durationMs nioxOnly callback userData s0) = 0"
    and "nioxOnly \<noteq> 0"
    and "during_scan (snd (winrt_start_scan ok fault durationMs nioxOnly callback userData s0)) s"
  shows "(appended s (on_received utf8 args s)
            \<longleftrightarrow> prefix NIOX_PREFIX (converted_name utf8 args))
     \<and> (passed_to_callback s (on_received utf8 args s)
            \<longleftrightarrow> callback \<noteq> nullptr \<and> prefix NIOX_PREFIX (converted_name utf8 args))
     \<and> (if prefix NIOX_PREFIX (converted_name utf8 args)
         then \<exists>d. g_discovered_devices (on_received utf8 args s) = g_discovered_devices s @ [d]
                \<and> callback_calls (on_received utf8 args s) = callback_calls s @
                     (if callback \<noteq> nullptr then [(callback, d, userData)] else [])
         else on_received utf8 args s = s)
     \<and> (LocalName (Advertisement args) = [] \<longrightarrow> on_received utf8 args s = s)"
proof -
  note g = started_scan_globals [OF assms(1) assms(3)]
  have n: "g_niox_only s" using g(1) assms(2) by simp
  show ?thesis
  proof (cases "prefix NIOX_PREFIX (converted_name utf8 args)")
    case True
    then have "g_niox_only s \<longrightarrow> prefix NIOX_PREFIX (converted_name utf8 args)" by simp
    from on_received_report_lists [OF this] show ?thesis
      using True n prefix_needs_name [of utf8 args]
      by (auto simp: on_received_appended on_received_passed g(2) g(3))
  next
    case False
    then show ?thesis
      using n
      by (simp add: on_received_skip appended_def passed_to_callback_def)
  qed
qed

text \<open>
  In a niox-only scan with callback 7, after an advertisement named \<open>Mouse\<close>: the one
  named \<open>NIOX PRO 1\<close> is appended and passed to the callback, another \<open>Mouse\<close> is not
  appended.
\<close>

theorem niox_only_scan_appends_prefix_names_witness:
  "appended (on_received utf8_encode mouse_args (scan_started 1 7 9))
     (on_received utf8_encode niox_args (on_received utf8_encode mouse_args (scan_started 1 7 9)))
   \<and> passed_to_callback (on_received utf8_encode mouse_args (scan_started 1 7 9))
     (on_received utf8_encode niox_args (on_received utf8_encode mouse_args (scan_started 1 7 9)))
   \<and> \<not> appended (on_received utf8_encode mouse_args (scan_started 1 7 9))
     (on_received utf8_encode mouse_args (on_received utf8_encode mouse_args (scan_started 1 7 9)))"
proof -
  let ?s = "on_received utf8_encode mouse_args (scan_started 1 7 9)"
  have s: "during_scan (snd (winrt_start_scan True NoFault 5000 1 7 9 initial_state)) ?s"
    unfolding scan_started_def by (rule d_received) (rule d_started)
  have n: "(1 :: int32) \<noteq> 0" by simp
  have c: "(7 :: ptr) \<noteq> nullptr" by (simp add: nullptr_def)
  note t = niox_only_scan_appends_prefix_names [OF scan_started_returns_0 n s]
  from t [of utf8_encode niox_args] have
    "appended ?s (on_received utf8_encode niox_args ?s)
       \<longleftrightarrow> prefix NIOX_PREFIX (converted_name utf8_encode niox_args)"
    "passed_to_callback ?s (on_received utf8_encode niox_args ?s)
       \<longleftrightarrow> 7 \<noteq> nullptr \<and> prefix NIOX_PREFIX (converted_name utf8_encode niox_args)"
    by blast+
  moreover from t [of utf8_encode mouse_args] have
    "appended ?s (on_received utf8_encode mouse_args ?s)
       \<longleftrightarrow> prefix NIOX_PREFIX (converted_name utf8_encode mouse_args)"
    by blast
  ultimately show ?thesis
    using niox_args_prefix mouse_args_no_prefix c by blast
qed

text \<open>
  Claim C1 as it was stated has the device reported, that is appended and passed to the
  callback, exactly when the name has the prefix. In a niox-only scan started with a null
  callback the device named \<open>NIOX PRO 1\<close> is appended and passed to no callback: the
  handler calls the callback only if one was provided.
\<close>

theorem niox_prefix_name_without_callback:
  "prefix NIOX_PREFIX (converted_name utf8_encode niox_args)
   \<and> appended (scan_started 1 nullptr nullptr)
       (on_received utf8_encode niox_args (scan_started 1 nullptr nullptr))
   \<and> \<not> passed_to_callback (scan_started 1 nullptr nullptr)
       (on_received utf8_encode niox_args (scan_started 1 nullptr nullptr))
   \<and> \<not> (reported (scan_started 1 nullptr nullptr)
           (on_received utf8_encode niox_args (scan_started 1 nullptr nullptr))
         \<longleftrightarrow> prefix NIOX_PREFIX (converted_name utf8_encode niox_args))"
  by (simp add: reported_def on_received_appended on_received_passed niox_args_prefix
      scan_started_eq)

text \<open>
  Claim C3, as the code has it. Take a scan that \<open>winrt_start_scan\<close> started (it returned 0)
  with \<open>nioxOnly = 0\<close>, and any advertisements handled since. The device of the next
  advertisement is appended to the list of discovered devices whatever its name; it is
  passed to the callback, with the user data of that call, if and only if the callback
  pointer given to \<open>winrt_start_scan\<close> is not null. Its name pointer is null exactly when
  the local name of the advertisement is empty.
\<close>

theorem all_devices_scan_appends_every_device:
  assumes "fst (winrt_start_scan ok fault durationMs nioxOnly callback userData s0) = 0"
    and "nioxOnly = 0"
    and "during_scan (snd (winrt_start_scan ok fault durationMs nioxOnly callback userData s0)) s"
  shows "appended s (on_received utf8 args s)
     \<and> (passed_to_callback s (on_received utf8 args s) \<longleftrightarrow> callback \<noteq> nullptr)
     \<and> (\<exists>d. g_discovered_devices (on_received utf8 args s) = g_discovered_devices s @ [d]
           \<and> callback_calls (on_received utf8 args s) = callback_calls s @
                (if callback \<noteq> nullptr then [(callback, d, userData)] else [])
           \<and> (name d = nullptr \<longleftrightarrow> LocalName (Advertisement args) = []))"
proof -
  note g = started_scan_globals [OF assms(1) assms(3)]
  have n: "\<not> g_niox_only s" using g(1) assms(2) by simp
  then have "g_niox_only s \<longrightarrow> prefix NIOX_PREFIX (converted_name utf8 args)" by simp
  from on_received_report_lists [OF this] show ?thesis
    using n by (auto simp: on_received_appended on_received_passed g(2) g(3))
qed

text \<open>
  In a scan of all devices with callback 7, after an advertisement named \<open>Mouse\<close>, the
  advertisement without a name is appended and passed to the callback.
\<close>

theorem all_devices_scan_appends_every_device_witness:
  "appended (on_received utf8_encode mouse_args (scan_started 0 7 9))
     (on_received utf8_encode nameless_args (on_received utf8_encode mouse_args (scan_started 0 7 9)))
   \<and> passed_to_callback (on_received utf8_encode mouse_args (scan_started 0 7 9))
     (on_received utf8_encode nameless_args (on_received utf8_encode mouse_args (scan_started 0 7 9)))"
proof -
  let ?s = "on_received utf8_encode mouse_args (scan_started 0 7 9)"
  have s: "during_scan (snd (winrt_start_scan True NoFault 5000 0 7 9 initial_state)) ?s"
    unfolding scan_started_def by (rule d_received) (rule d_started)
  have c: "(7 :: ptr) \<noteq> nullptr" by (simp add: nullptr_def)
  from all_devices_scan_appends_every_device [OF scan_started_returns_0 refl s,
      of utf8_encode nameless_args]
  have "appended ?s (on_received utf8_encode nameless_args ?s)"
    "passed_to_callback ?s (on_received utf8_encode nameless_args ?s) \<longleftrightarrow> 7 \<noteq> nullptr"
    by blast+
  then show ?thesis
    using c by blast
qed

text \<open>
  Claim C3 as it was stated has every device appended and passed to the callback. In a scan
  of all devices started with a null callback the device named \<open>Mouse\<close> is appended and
  passed to no callback.
\<close>

theorem device_without_callback_not_passed:
  "appended (scan_started 0 nullptr nullptr)
       (on_received utf8_encode mouse_args (scan_started 0 nullptr nullptr))
   \<and> \<not> passed_to_callback (scan_started 0 nullptr nullptr)
       (on_received utf8_encode mouse_args (scan_started 0 nullptr nullptr))
   \<and> \<not> reported (scan_started 0 nullptr nullptr)
       (on_received utf8_encode mouse_args (scan_started 0 nullptr nullptr))"
  by (simp add: reported_def on_received_appended on_received_passed scan_started_eq)

subsection \<open>What is reported\<close>

text \<open>
  Claim C9. The handler either leaves the state as it was, or appends one device to the list
  and passes that same device to the callback if there is one. For that device
  \<open>hasRssi\<close> is 1; \<open>address\<close> is not null and is the pointer that
  \<open>format_bluetooth_address\<close> returned for the address of the advertisement, to a block
  holding its string; \<open>rssi\<close> is the raw signal strength of the advertisement, sign
  extended; and \<open>name\<close> is null exactly when the local name of the advertisement is
  empty.
\<close>

theorem reported_device_fields:
  "on_received utf8 args s = s
   \<or> (\<exists>d. g_discovered_devices (on_received utf8 args s) = g_discovered_devices s @ [d]
         \<and> callback_calls (on_received utf8 args s) = callback_calls s @
              (if g_callback s \<noteq> nullptr then [(g_callback s, d, g_user_data s)] else [])
         \<and> hasRssi d = 1
         \<and> address d \<noteq> nullptr
         \<and> (\<exists>h. format_bluetooth_address (BluetoothAddress args) h
                  = (address d, free_store (on_received utf8 args s)))
         \<and> block_at (free_store (on_received utf8 args s)) (address d)
              = Some (18, colon_hex (BluetoothAddress args))
         \<and> rssi d = scast (RawSignalStrengthInDBm args)
         \<and> sint (rssi d) = sint (RawSignalStrengthInDBm args)
         \<and> (name d = nullptr \<longleftrightarrow> LocalName (Advertisement args) = []))"
proof (cases "g_niox_only s \<longrightarrow> prefix NIOX_PREFIX (converted_name utf8 args)")
  case False
  then show ?thesis by (simp add: on_received_skip)
next
  case True
  have up: "sint (scast (RawSignalStrengthInDBm args) :: int32) = sint (RawSignalStrengthInDBm args)"
    by (rule sint_up_scast) (simp add: is_up)
  show ?thesis
    by (rule disjI2)
      (auto simp: on_received_report [OF True] Let_def nullptr_def block_at_def up
        format_bluetooth_address_def new_array_def sprintf_address_colon_hex)
qed

text \<open>
  The device reported for the advertisement named \<open>Mouse\<close>, received at -71 dBm from
  00:00:0A:0B:0C:0D.
\<close>

theorem reported_device_fields_witness:
  "hasRssi (last (g_discovered_devices (on_received utf8_encode mouse_args (scan_started 0 7 9)))) = 1
   \<and> address (last (g_discovered_devices (on_received utf8_encode mouse_args (scan_started 0 7 9))))
       \<noteq> nullptr
   \<and> sint (rssi (last (g_discovered_devices
         (on_received utf8_encode mouse_args (scan_started 0 7 9))))) = - 71
   \<and> name (last (g_discovered_devices (on_received utf8_encode mouse_args (scan_started 0 7 9))))
       \<noteq> nullptr
   \<and> block_at (free_store (on_received utf8_encode mouse_args (scan_started 0 7 9)))
        (address (last (g_discovered_devices
           (on_received utf8_encode mouse_args (scan_started 0 7 9)))))
       = Some (18, ''00:00:0A:0B:0C:0D'')"
proof -
  let ?s = "scan_started 0 7 9"
  let ?s' = "on_received utf8_encode mouse_args ?s"
  have "appended ?s ?s'"
    by (simp add: on_received_appended scan_started_eq)
  then have "?s' \<noteq> ?s"
    by (auto simp: appended_def)
  with reported_device_fields [of utf8_encode mouse_args ?s] obtain d where
    d: "g_discovered_devices ?s' = g_discovered_devices ?s @ [d]" and
    f: "hasRssi d = 1" "address d \<noteq> nullptr"
      "sint (rssi d) = sint (RawSignalStrengthInDBm mouse_args)"
      "(name d = nullptr) = (LocalName (Advertisement mouse_args) = [])"
      "block_at (free_store ?s') (address d) = Some (18, colon_hex (BluetoothAddress mouse_args))"
    by blast
  have a: "colon_hex (BluetoothAddress mouse_args) = ''00:00:0A:0B:0C:0D''"
    unfolding sprintf_address_colon_hex [symmetric]
    by (simp add: mouse_args_def sprintf_address_def sprintf_02X_def to_hex.simps hex_digit_def)
  have m: "sint (RawSignalStrengthInDBm mouse_args) = - 71"
    "LocalName (Advertisement mouse_args) \<noteq> []"
    by (simp_all add: mouse_args_def)
  from f show ?thesis
    by (simp add: d a m)
qed

text \<open>
  Claim C5. For the device the handler appends (and passes to the callback if there is one),
  \<open>name\<close> is null when the local name of the advertisement is empty, and otherwise points
  to a block holding the conversion of the local name as \<open>c_str\<close> gives it (all of it,
  when it has no zero code unit) and nothing else. No other field has a part in it: two
  advertisements with the same local name, whatever else they carry, are both reported or
  both not, with a null name pointer in both or in neither and the same block behind it.
\<close>

theorem reported_name_is_local_name:
  "(\<forall>d. g_discovered_devices (on_received utf8 args s) = g_discovered_devices s @ [d] \<longrightarrow>
        (if LocalName (Advertisement args) = [] then name d = nullptr
         else name d \<noteq> nullptr
              \<and> block_at (free_store (on_received utf8 args s)) (name d)
                  = Some (length (converted_name utf8 args) + 1, converted_name utf8 args))
        \<and> callback_calls (on_received utf8 args s) = callback_calls s @
             (if g_callback s \<noteq> nullptr then [(g_callback s, d, g_user_data s)] else []))
   \<and> converted_name utf8 args = WideCharToMultiByte utf8 (c_str (LocalName (Advertisement args)))
   \<and> (LocalName (Advertisement args) \<noteq> [] \<and> 0 \<notin> set (LocalName (Advertisement args)) \<longrightarrow>
        converted_name utf8 args = utf8 (LocalName (Advertisement args)))
   \<and> (LocalName (Advertisement args) = LocalName (Advertisement args') \<longrightarrow>
        (appended s (on_received utf8 args s) \<longleftrightarrow> appended s (on_received utf8 args' s))
        \<and> (\<forall>d d'. g_discovered_devices (on_received utf8 args s) = g_discovered_devices s @ [d]
                 \<and> g_discovered_devices (on_received utf8 args' s) = g_discovered_devices s @ [d']
               \<longrightarrow> (name d = nullptr \<longleftrightarrow> name d' = nullptr)
                 \<and> block_at (free_store (on_received utf8 args s)) (name d)
                     = block_at (free_store (on_received utf8 args' s)) (name d')))"
proof -
  have same: "converted_name utf8 args = converted_name utf8 args'"
    if "LocalName (Advertisement args) = LocalName (Advertisement args')"
    using that by (simp add: converted_name_def)
  have one: "(if LocalName (Advertisement a) = [] then name d = nullptr
         else name d \<noteq> nullptr
              \<and> block_at (free_store (on_received utf8 a s)) (name d)
                  = Some (length (converted_name utf8 a) + 1, converted_name utf8 a))
        \<and> callback_calls (on_received utf8 a s) = callback_calls s @
             (if g_callback s \<noteq> nullptr then [(g_callback s, d, g_user_data s)] else [])
        \<and> name d = (if LocalName (Advertisement a) = [] then nullptr
                     else Suc (heap_top (free_store s)))
        \<and> block_at (free_store (on_received utf8 a s)) (name d)
             = (if LocalName (Advertisement a) = [] then block_at (free_store s) nullptr
                else Some (length (converted_name utf8 a) + 1, converted_name utf8 a))"
    if "g_discovered_devices (on_received utf8 a s) = g_discovered_devices s @ [d]" for a d
  proof (cases "g_niox_only s \<longrightarrow> prefix NIOX_PREFIX (converted_name utf8 a)")
    case False
    with that show ?thesis by (simp add: on_received_skip)
  next
    case True
    show ?thesis
    proof (cases "LocalName (Advertisement a) = []")
      case e: True
      from that show ?thesis
        by (simp add: on_received_report [OF True] Let_def e) (auto simp: nullptr_def block_at_def)
    next
      case e: False
      from that show ?thesis
        by (simp add: on_received_report [OF True] Let_def e) (auto simp: nullptr_def block_at_def)
    qed
  qed
  show ?thesis
  proof (intro conjI allI impI)
    fix d
    assume "g_discovered_devices (on_received utf8 args s) = g_discovered_devices s @ [d]"
    from one [OF this]
    show "if LocalName (Advertisement args) = [] then name d = nullptr
         else name d \<noteq> nullptr
              \<and> block_at (free_store (on_received utf8 args s)) (name d)
                  = Some (length (converted_name utf8 args) + 1, converted_name utf8 args)"
      and "callback_calls (on_received utf8 args s) = callback_calls s @
             (if g_callback s \<noteq> nullptr then [(g_callback s, d, g_user_data s)] else [])"
      by blast+
  next
    show "converted_name utf8 args
        = WideCharToMultiByte utf8 (c_str (LocalName (Advertisement args)))"
      by (simp add: converted_name_def)
  next
    assume "LocalName (Advertisement args) \<noteq> [] \<and> 0 \<notin> set (LocalName (Advertisement args))"
    then have "c_str (LocalName (Advertisement args)) = LocalName (Advertisement args)"
      unfolding c_str_def by (intro takeWhile_eq_all_conv [THEN iffD2]) auto
    with \<open>LocalName (Advertisement args) \<noteq> [] \<and> 0 \<notin> set (LocalName (Advertisement args))\<close>
    show "converted_name utf8 args = utf8 (LocalName (Advertisement args))"
      by (simp add: converted_name_def WideCharToMultiByte_def)
  next
    assume "LocalName (Advertisement args) = LocalName (Advertisement args')"
    then show "appended s (on_received utf8 args s) \<longleftrightarrow> appended s (on_received utf8 args' s)"
      by (simp add: on_received_appended same)
  next
    fix d d'
    assume l: "LocalName (Advertisement args) = LocalName (Advertisement args')"
      and both: "g_discovered_devices (on_received utf8 args s) = g_discovered_devices s @ [d]
                 \<and> g_discovered_devices (on_received utf8 args' s) = g_discovered_devices s @ [d']"
    from both have a1: "g_discovered_devices (on_received utf8 args s) = g_discovered_devices s @ [d]"
      and a2: "g_discovered_devices (on_received utf8 args' s) = g_discovered_devices s @ [d']"
      by simp_all
    from one [OF a1] have
      n1: "name d = (if LocalName (Advertisement args) = [] then nullptr
                     else Suc (heap_top (free_store s)))" and
      b1: "block_at (free_store (on_received utf8 args s)) (name d)
             = (if LocalName (Advertisement args) = [] then block_at (free_store s) nullptr
                else Some (length (converted_name utf8 args) + 1, converted_name utf8 args))"
      by blast+
    from one [OF a2] have
      n2: "name d' = (if LocalName (Advertisement args') = [] then nullptr
                     else Suc (heap_top (free_store s)))" and
      b2: "block_at (free_store (on_received utf8 args' s)) (name d')
             = (if LocalName (Advertisement args') = [] then block_at (free_store s) nullptr
                else Some (length (converted_name utf8 args') + 1, converted_name utf8 args'))"
      by blast+
    show "name d = nullptr \<longleftrightarrow> name d' = nullptr"
      unfolding n1 n2 l ..
    show "block_at (free_store (on_received utf8 args s)) (name d)
                     = block_at (free_store (on_received utf8 args' s)) (name d')"
      unfolding b1 b2 l same [OF l] ..
  qed
qed

text \<open>
  The advertisement named \<open>NIOX PRO 1\<close> and its twin with other address, signal strength
  and payload are both reported with a name pointer to the characters
  \<open>NIOX PRO 1\<close>.
\<close>

theorem reported_name_is_local_name_witness:
  "block_at (free_store (on_received utf8_encode niox_args (scan_started 1 7 9)))
        (name (last (g_discovered_devices (on_received utf8_encode niox_args (scan_started 1 7 9)))))
      = Some (11, ''NIOX PRO 1'')
   \<and> block_at (free_store (on_received utf8_encode niox_twin_args (scan_started 1 7 9)))
        (name (last (g_discovered_devices (on_received utf8_encode niox_twin_args (scan_started 1 7 9)))))
      = Some (11, ''NIOX PRO 1'')"
proof -
  let ?s = "scan_started 1 7 9"
  let ?s1 = "on_received utf8_encode niox_args ?s"
  let ?s2 = "on_received utf8_encode niox_twin_args ?s"
  have l: "LocalName (Advertisement niox_args) = LocalName (Advertisement niox_twin_args)"
    by (simp add: niox_twin_args_def)
  have ne: "LocalName (Advertisement niox_args) \<noteq> []"
    by (simp add: niox_args_def)
  have c: "converted_name utf8_encode niox_twin_args = ''NIOX PRO 1''"
    using niox_args_name l by (simp add: converted_name_def)
  have "g_niox_only ?s \<longrightarrow> prefix NIOX_PREFIX (converted_name utf8_encode niox_args)"
    using niox_args_prefix by simp
  from on_received_report_lists [OF this] obtain d where
    d: "g_discovered_devices ?s1 = g_discovered_devices ?s @ [d]" by blast
  have "g_niox_only ?s \<longrightarrow> prefix NIOX_PREFIX (converted_name utf8_encode niox_twin_args)"
    by (simp add: c NIOX_PREFIX_def)
  from on_received_report_lists [OF this] obtain d' where
    d': "g_discovered_devices ?s2 = g_discovered_devices ?s @ [d']" by blast
  note t = reported_name_is_local_name [of utf8_encode niox_args ?s niox_twin_args]
  from t d ne have "block_at (free_store ?s1) (name d)
      = Some (length (converted_name utf8_encode niox_args) + 1,
              converted_name utf8_encode niox_args)"
    by presburger
  then have b1: "block_at (free_store ?s1) (name d) = Some (11, ''NIOX PRO 1'')"
    by (simp add: niox_args_name)
  from t l d d' have "block_at (free_store ?s1) (name d) = block_at (free_store ?s2) (name d')"
    by blast
  with b1 have b2: "block_at (free_store ?s2) (name d') = Some (11, ''NIOX PRO 1'')"
    by simp
  show ?thesis
    by (simp add: d d' b1 b2)
qed

subsection \<open>Cleanup\<close>

lemma block_at_drop_block:
  "block_at (drop_block p h) q = (if q = p then None else block_at h q)"
  by (induction h) (auto simp: block_at_def drop_block_def)

lemma delete_array_live:
  "p \<noteq> nullptr \<Longrightarrow>
     delete_array p h = (if block_at h p = None then None else Some (drop_block p h))"
  by (simp add: delete_array_def)

lemma free_devices_delete_all:
  "free_devices ds h = delete_all (concat (map device_strings ds)) h"
proof (induction ds arbitrary: h)
  case Nil
  then show ?case by simp
next
  case (Cons d ds)
  show ?case
    by (simp add: Cons.IH device_strings_def split: option.splits)
qed

lemma device_strings_not_null: "nullptr \<notin> set (concat (map device_strings ds))"
  by (auto simp: device_strings_def)

lemma delete_all_defined:
  "nullptr \<notin> set ps \<Longrightarrow>
     (delete_all ps h \<noteq> None) = (distinct ps \<and> (\<forall>p \<in> set ps. block_at h p \<noteq> None))"
proof (induction ps arbitrary: h)
  case Nil
  then show ?case by simp
next
  case (Cons p ps)
  then have p: "p \<noteq> nullptr" and ps: "nullptr \<notin> set ps" by auto
  show ?case
  proof (cases "block_at h p = None")
    case True
    then show ?thesis by (simp add: delete_array_live [OF p])
  next
    case False
    then have "delete_all (p # ps) h = delete_all ps (drop_block p h)"
      by (cases "block_at h p") (simp_all add: delete_array_live [OF p])
    moreover have "(\<forall>q \<in> set ps. block_at (drop_block p h) q \<noteq> None)
        = (p \<notin> set ps \<and> (\<forall>q \<in> set ps. block_at h q \<noteq> None))"
      by (auto simp del: not_None_eq simp: block_at_drop_block)
    ultimately show ?thesis
      using False Cons.IH [OF ps, of "drop_block p h"]
      by (auto simp del: not_None_eq)
  qed
qed


lemma stop_and_reset:
  "(case g_watcher s of None \<Rightarrow> s
    | Some w \<Rightarrow> reset_watcher (s\<lparr>g_watcher := Some (watcher_Stop stop_ok w)\<rparr>))
   = s\<lparr>g_watcher := None,
       released_watchers := released_watchers s @
         (case g_watcher s of None \<Rightarrow> [] | Some w \<Rightarrow> [watcher_Stop stop_ok w])\<rparr>"
  by (cases "g_watcher s") (simp_all add: reset_watcher_def)

lemma winrt_cleanup_eq:
  "winrt_cleanup stop_ok s =
     (case delete_all (stored_strings s) (free_store s) of
        None \<Rightarrow> None
      | Some h \<Rightarrow>
          Some (s\<lparr>g_watcher := None,
                 released_watchers := released_watchers s @
                   (case g_watcher s of None \<Rightarrow> [] | Some w \<Rightarrow> [watcher_Stop stop_ok w]),
                 free_store := h,
                 g_discovered_devices := [], g_callback := nullptr, g_user_data := nullptr,
                 g_initialized := False, apartment_refs := apartment_refs s - 1\<rparr>))"
  unfolding winrt_cleanup_def stop_and_reset
  by (simp add: uninit_apartment_def Let_def free_devices_delete_all stored_strings_def
      split: option.splits)

lemma winrt_cleanup_defined:
  "(\<exists>s'. winrt_cleanup stop_ok s = Some s') = stored_strings_live s"
proof -
  have n: "nullptr \<notin> set (stored_strings s)"
    unfolding stored_strings_def by (rule device_strings_not_null)
  have "(\<exists>s'. winrt_cleanup stop_ok s = Some s')
      = (delete_all (stored_strings s) (free_store s) \<noteq> None)"
    by (auto simp: winrt_cleanup_eq split: option.splits)
  also have "\<dots> = stored_strings_live s"
    unfolding stored_strings_live_def delete_all_defined [OF n] list_all_iff ..
  finally show ?thesis .
qed


lemma mouse_found:
  "on_received utf8_encode mouse_args (scan_started 0 7 9)
   = (scan_started 0 7 9)
      \<lparr>free_store := [(2, 18, ''00:00:0A:0B:0C:0D''), (1, 6, ''Mouse'')],
       g_discovered_devices := [\<lparr>name = 1, address = 2, rssi = - 71, hasRssi = 1\<rparr>],
       callback_calls := [(7, \<lparr>name = 1, address = 2, rssi = - 71, hasRssi = 1\<rparr>, 9)]\<rparr>"
proof -
  have a: "sprintf_address (BluetoothAddress mouse_args) = ''00:00:0A:0B:0C:0D''"
    by (simp add: mouse_args_def sprintf_address_def sprintf_02X_def to_hex.simps hex_digit_def)
  have l: "LocalName (Advertisement mouse_args) \<noteq> []"
    "RawSignalStrengthInDBm mouse_args = - 71"
    by (simp_all add: mouse_args_def)
  have g: "\<not> g_niox_only (scan_started 0 7 9)" "free_store (scan_started 0 7 9) = []"
    "g_discovered_devices (scan_started 0 7 9) = []" "callback_calls (scan_started 0 7 9) = []"
    "g_callback (scan_started 0 7 9) = 7" "g_user_data (scan_started 0 7 9) = 9"
    by (simp_all add: scan_started_eq)
  from g(1) have "g_niox_only (scan_started 0 7 9) \<longrightarrow>
      prefix NIOX_PREFIX (converted_name utf8_encode mouse_args)" by simp
  from on_received_report [OF this] show ?thesis
    by (simp add: Let_def a l g mouse_args_name nullptr_def)
qed

lemma mouse_found_strings:
  "stored_strings (on_received utf8_encode mouse_args (scan_started 0 7 9)) = [1, 2]"
  "stored_strings_live (on_received utf8_encode mouse_args (scan_started 0 7 9))"
  by (simp_all add: mouse_found stored_strings_live_def stored_strings_def device_strings_def
      nullptr_def block_at_def)


text \<open>
  The same scan, but the client has freed the name it was given with
  \<open>winrt_free_string\<close>: the state is one the wrapper can be in, the stored name has no
  live block, and \<open>winrt_cleanup\<close> deletes it a second time, which is undefined.
\<close>

lemma cleanup_after_client_free:
  "\<exists>u. winrt_free_string 1 (on_received utf8_encode mouse_args (scan_started 0 7 9)) = Some u
       \<and> reachable u \<and> \<not> stored_strings_live u \<and> winrt_cleanup True u = None"
proof -
  let ?s = "on_received utf8_encode mouse_args (scan_started 0 7 9)"
  let ?u = "?s\<lparr>free_store := [(2, 18, ''00:00:0A:0B:0C:0D'')]\<rparr>"
  have f: "winrt_free_string 1 ?s = Some ?u"
    unfolding winrt_free_string_def
    by (subst (1 2) mouse_found)
      (simp add: nullptr_def delete_array_def block_at_def drop_block_def)
  have "reachable (scan_started 0 7 9)"
    unfolding scan_started_def by (rule r_start) (rule r_init)
  moreover have "g_watcher (scan_started 0 7 9)
      = Some \<lparr>ScanningMode = Active, Received = True, Status = Started\<rparr>"
    by (simp add: scan_started_eq)
  ultimately have "reachable ?s"
    by (rule r_received) simp
  then have r: "reachable ?u"
    using f by (rule r_free)
  have "stored_strings ?u = [1, 2]"
    using mouse_found_strings(1) by (simp add: stored_strings_def)
  then have n: "\<not> stored_strings_live ?u"
    by (simp add: stored_strings_live_def block_at_def)
  then have "winrt_cleanup True ?u = None"
    using winrt_cleanup_defined [of True ?u] by (cases "winrt_cleanup True ?u") auto
  with f r n show ?thesis by blast
qed

subsection \<open>The devices over time\<close>

text \<open>
  In every state the wrapper can be in, each device in the list and each device that was
  passed to the callback has \<open>hasRssi = 1\<close> and a non-null address, and the callback that
  was called was not null.
\<close>

lemma reachable_devices_well_formed:
  "reachable s \<Longrightarrow>
     (\<forall>d \<in> set (g_discovered_devices s). hasRssi d = 1 \<and> address d \<noteq> nullptr)
     \<and> (\<forall>c \<in> set (callback_calls s).
           fst c \<noteq> nullptr \<and> hasRssi (fst (snd c)) = 1 \<and> address (fst (snd c)) \<noteq> nullptr)"
proof (induction rule: reachable.induct)
  case r_init
  then show ?case by (simp add: initial_state_def)
next
  case (r_initialize s ok)
  then show ?case
    by (auto simp: winrt_initialize_def init_apartment_def)
next
  case (r_cleanup s stop_ok s')
  then show ?case by (auto simp: winrt_cleanup_eq split: option.splits)
next
  case (r_check s ok q)
  then show ?case
    by (auto simp: winrt_check_bluetooth_state_def winrt_initialize_def init_apartment_def
        split: radio_query.splits)
next
  case (r_start s ok fault durationMs nioxOnly callback userData)
  then show ?case
    by (auto simp: winrt_start_scan_def try_start_scan_def set_watcher_def reset_watcher_def
        winrt_initialize_def init_apartment_def Let_def split: if_splits)
next
  case (r_stop s stop_ok)
  then show ?case
    by (auto simp: winrt_stop_scan_def reset_watcher_def split: option.splits)
next
  case (r_free s str s')
  then show ?case by (auto simp: winrt_free_string_def split: if_splits option.splits)
next
  case (r_received s w utf8 args)
  show ?case
  proof (cases "g_niox_only s \<longrightarrow> prefix NIOX_PREFIX (converted_name utf8 args)")
    case False
    with r_received.IH show ?thesis by (simp add: on_received_skip)
  next
    case True
    with r_received.IH show ?thesis
      by (auto simp: on_received_report [OF True] Let_def nullptr_def)
  qed
qed

subsection \<open>The end of a scan\<close>

text \<open>
  \<open>winrt_stop_scan\<close>, whoever calls it, leaves no watcher, and releases the one that was
  held after \<open>Stop()\<close>; nothing else changes. Without a watcher it does nothing.
\<close>

lemma winrt_stop_scan_eq:
  "winrt_stop_scan stop_ok s =
     (case g_watcher s of
        None \<Rightarrow> s
      | Some w \<Rightarrow> s\<lparr>g_watcher := None,
                     released_watchers := released_watchers s @ [watcher_Stop stop_ok w]\<rparr>)"
  by (simp add: winrt_stop_scan_def reset_watcher_def split: option.splits)

lemma winrt_stop_scan_no_watcher: "g_watcher (winrt_stop_scan stop_ok s) = None"
  by (simp add: winrt_stop_scan_eq split: option.splits)

subsection \<open>When cleanup is defined\<close>

text \<open>
  Every call of the wrapper but \<open>winrt_free_string\<close> keeps the stored strings live: the
  handler stores pointers to blocks it has just allocated, and nothing else deletes a
  block. So \<open>winrt_cleanup\<close> returns unless the client has freed a string that is still
  in the list.
\<close>

lemma live_below_top: "block_at h p \<noteq> None \<Longrightarrow> p \<le> heap_top h"
  by (induction h) (auto simp: block_at_def split: if_splits)

lemma on_received_keeps_live:
  assumes "stored_strings_live s"
  shows "stored_strings_live (on_received utf8 args s)"
proof (cases "g_niox_only s \<longrightarrow> prefix NIOX_PREFIX (converted_name utf8 args)")
  case False
  with assms show ?thesis by (simp add: on_received_skip)
next
  case True
  let ?h = "free_store s"
  from assms have d: "distinct (stored_strings s)"
    and l: "\<forall>p \<in> set (stored_strings s). block_at ?h p \<noteq> None"
    by (simp_all add: stored_strings_live_def list_all_iff)
  from l have le: "\<forall>p \<in> set (stored_strings s). p \<le> heap_top ?h"
    by (blast intro: live_below_top)
  from l have old: "\<forall>p \<in> set (stored_strings s). map_of ?h p \<noteq> None"
    by (simp add: block_at_def)
  let ?s' = "on_received utf8 args s"
  show ?thesis
  proof (cases "LocalName (Advertisement args) = []")
    case e: True
    have ss: "stored_strings ?s' = stored_strings s @ [Suc (heap_top ?h)]"
      by (simp add: on_received_report [OF True] Let_def e stored_strings_def
          device_strings_def nullptr_def)
    have fs: "free_store ?s'
        = (Suc (heap_top ?h), (18, sprintf_address (BluetoothAddress args))) # ?h"
      by (simp add: on_received_report [OF True] Let_def e)
    show ?thesis
      unfolding stored_strings_live_def ss fs list_all_iff
      using d le old by (auto simp: block_at_def simp del: not_None_eq)
  next
    case e: False
    have ss: "stored_strings ?s'
        = stored_strings s @ [Suc (heap_top ?h), Suc (Suc (heap_top ?h))]"
      by (simp add: on_received_report [OF True] Let_def e stored_strings_def
          device_strings_def nullptr_def)
    have fs: "free_store ?s'
        = (Suc (Suc (heap_top ?h)), (18, sprintf_address (BluetoothAddress args)))
          # (Suc (heap_top ?h), (length (converted_name utf8 args) + 1, converted_name utf8 args))
          # ?h"
      by (simp add: on_received_report [OF True] Let_def e)
    show ?thesis
      unfolding stored_strings_live_def ss fs list_all_iff
      using d le old by (auto simp: block_at_def simp del: not_None_eq)
  qed
qed

lemma calls_keep_live:
  "stored_strings_live initial_state"
  "stored_strings_live s \<Longrightarrow> stored_strings_live (snd (winrt_initialize ok s))"
  "stored_strings_live s \<Longrightarrow> stored_strings_live (snd (winrt_check_bluetooth_state ok q s))"
  "stored_strings_live s \<Longrightarrow>
     stored_strings_live (snd (winrt_start_scan ok fault durationMs nioxOnly callback userData s))"
  "stored_strings_live s \<Longrightarrow> stored_strings_live (winrt_stop_scan stop_ok s)"
  "winrt_cleanup stop_ok s = Some s' \<Longrightarrow> stored_strings_live s'"
proof -
  show "stored_strings_live initial_state"
    by (simp add: stored_strings_live_def stored_strings_def initial_state_def)
  show "stored_strings_live s \<Longrightarrow> stored_strings_live (snd (winrt_initialize ok s))"
    by (auto simp: stored_strings_live_def stored_strings_def winrt_initialize_def
        init_apartment_def)
  show "stored_strings_live s \<Longrightarrow> stored_strings_live (snd (winrt_check_bluetooth_state ok q s))"
    by (auto simp: stored_strings_live_def stored_strings_def winrt_check_bluetooth_state_def
        winrt_initialize_def init_apartment_def split: radio_query.splits)
  show "stored_strings_live s \<Longrightarrow>
     stored_strings_live (snd (winrt_start_scan ok fault durationMs nioxOnly callback userData s))"
    by (auto simp: stored_strings_live_def stored_strings_def winrt_start_scan_def
        try_start_scan_def set_watcher_def reset_watcher_def winrt_initialize_def
        init_apartment_def Let_def split: if_splits)
  show "stored_strings_live s \<Longrightarrow> stored_strings_live (winrt_stop_scan stop_ok s)"
    by (auto simp: stored_strings_live_def stored_strings_def winrt_stop_scan_eq
        split: option.splits)
  show "winrt_cleanup stop_ok s = Some s' \<Longrightarrow> stored_strings_live s'"
    by (auto simp: stored_strings_live_def stored_strings_def winrt_cleanup_eq
        split: option.splits)
qed

end
